theory Spec2Isabelle
  imports Main "HOL-Library.Sublist"
begin

section \<open>Python strings\<close>

text \<open>
  A Python \<open>str\<close> is modelled as a \<open>string\<close>. The character classes and the case
  mapping below are those of Python on ASCII text; a character above 127 is left alone by
  \<open>str_lower\<close> and \<open>str_upper\<close> and belongs to no class. The bullet of the reply
  templates (U+2022) is written as its three UTF-8 bytes.
\<close>

definition is_upper_char :: "char \<Rightarrow> bool" where
  "is_upper_char c = (65 \<le> (of_char c :: nat) \<and> (of_char c :: nat) \<le> 90)"

definition is_lower_char :: "char \<Rightarrow> bool" where
  "is_lower_char c = (97 \<le> (of_char c :: nat) \<and> (of_char c :: nat) \<le> 122)"

definition is_digit_char :: "char \<Rightarrow> bool" where
  "is_digit_char c = (48 \<le> (of_char c :: nat) \<and> (of_char c :: nat) \<le> 57)"

definition is_space_char :: "char \<Rightarrow> bool" where
  \<comment> \<open>\<open>str.isspace\<close> on ASCII: tab, LF, VT, FF, CR, the separators 28..31, space.\<close>
  "is_space_char c =
     ((9 \<le> (of_char c :: nat) \<and> (of_char c :: nat) \<le> 13) \<or>
      (28 \<le> (of_char c :: nat) \<and> (of_char c :: nat) \<le> 32))"

definition is_word_char :: "char \<Rightarrow> bool" where
  \<comment> \<open>The class \<open>\w\<close>: letters, digits and the underscore.\<close>
  "is_word_char c = (is_upper_char c \<or> is_lower_char c \<or> is_digit_char c \<or> c = CHR ''_'')"

definition lower_char :: "char \<Rightarrow> char" where
  "lower_char c =
     (case map_of (zip ''ABCDEFGHIJKLMNOPQRSTUVWXYZ'' ''abcdefghijklmnopqrstuvwxyz'') c of
        None \<Rightarrow> c | Some d \<Rightarrow> d)"

definition upper_char :: "char \<Rightarrow> char" where
  "upper_char c =
     (case map_of (zip ''abcdefghijklmnopqrstuvwxyz'' ''ABCDEFGHIJKLMNOPQRSTUVWXYZ'') c of
        None \<Rightarrow> c | Some d \<Rightarrow> d)"

definition str_lower :: "string \<Rightarrow> string" where
  "str_lower s = map lower_char s"

definition str_upper :: "string \<Rightarrow> string" where
  "str_upper s = map upper_char s"

fun str_contains :: "string \<Rightarrow> string \<Rightarrow> bool" where
  \<comment> \<open>\<open>w in s\<close>\<close>
  "str_contains w [] = (w = [])"
| "str_contains w (c # cs) = (prefix w (c # cs) \<or> str_contains w cs)"

definition str_startswith :: "string \<Rightarrow> string \<Rightarrow> bool" where
  "str_startswith s w = prefix w s"

definition str_strip :: "string \<Rightarrow> string" where
  "str_strip s = rev (dropWhile is_space_char (rev (dropWhile is_space_char s)))"

fun str_nat :: "nat \<Rightarrow> string" where
  "str_nat n =
     (if n < 10 then [''0123456789'' ! n]
      else str_nat (n div 10) @ [''0123456789'' ! (n mod 10)])"

definition str_int :: "int \<Rightarrow> string" where
  \<comment> \<open>\<open>str(i)\<close> of a Python int\<close>
  "str_int i = (if i < 0 then ''-'' @ str_nat (nat (- i)) else str_nat (nat i))"

fun str_join :: "string \<Rightarrow> string list \<Rightarrow> string" where
  \<comment> \<open>\<open>sep.join(xs)\<close>\<close>
  "str_join sep [] = []"
| "str_join sep [x] = x"
| "str_join sep (x # y # ys) = x @ sep @ str_join sep (y # ys)"

definition bullet :: string where
  "bullet = [CHR 0xE2, CHR 0x80, CHR 0xA2]"

section \<open>Regular expressions\<close>

text \<open>
  The patterns of the classifier use literals, \<open>\b\<close>, \<open>\d+\<close>, \<open>\s*\<close>,
  alternation, \<open>?\<close> and capturing groups. \<open>rx_match\<close> is a backtracking matcher
  in the order Python's \<open>re\<close> tries: it returns every way the pattern matches at the
  cursor, the one \<open>re\<close> would take first. The cursor is the character before the
  position (for \<open>\b\<close>) and the text from the position on. \<open>re.IGNORECASE\<close> is
  left out: the patterns are lower case and so is the text they are run on.
\<close>

datatype cls = Digit | Space

fun in_cls :: "cls \<Rightarrow> char \<Rightarrow> bool" where
  "in_cls Digit c = is_digit_char c"
| "in_cls Space c = is_space_char c"

datatype rx =
  Lit string
  | Many cls nat
  | WordB
  | Seq rx rx
  | Alt rx rx
  | Opt rx
  | Grp nat rx

type_synonym cursor = "char option \<times> string"
type_synonym caps = "(nat \<times> string) list"

definition advance :: "nat \<Rightarrow> cursor \<Rightarrow> cursor" where
  "advance j cur = (if j = 0 then cur else (Some (snd cur ! (j - 1)), drop j (snd cur)))"

definition word_opt :: "char option \<Rightarrow> bool" where
  "word_opt p = (case p of None \<Rightarrow> False | Some c \<Rightarrow> is_word_char c)"

definition at_boundary :: "cursor \<Rightarrow> bool" where
  "at_boundary cur =
     (word_opt (fst cur) \<noteq> word_opt (case snd cur of [] \<Rightarrow> None | c # _ \<Rightarrow> Some c))"

primrec rx_match :: "rx \<Rightarrow> cursor \<times> caps \<Rightarrow> (cursor \<times> caps) list" where
  "rx_match (Lit w) x =
     (if prefix w (snd (fst x)) then [(advance (length w) (fst x), snd x)] else [])"
| "rx_match (Many cl n) x =
     map (\<lambda>j. (advance j (fst x), snd x))
         (rev [n ..< Suc (length (takeWhile (in_cls cl) (snd (fst x))))])"
| "rx_match WordB x = (if at_boundary (fst x) then [x] else [])"
| "rx_match (Seq a b) x = concat (map (rx_match b) (rx_match a x))"
| "rx_match (Alt a b) x = rx_match a x @ rx_match b x"
| "rx_match (Opt a) x = rx_match a x @ [x]"
| "rx_match (Grp i a) x =
     map (\<lambda>y. (fst y, (i, take (length (snd (fst x)) - length (snd (fst y))) (snd (fst x))) # snd y))
         (rx_match a x)"

fun rx_search :: "rx \<Rightarrow> char option \<Rightarrow> string \<Rightarrow> bool" where
  "rx_search r p [] = (rx_match r ((p, []), []) \<noteq> [])"
| "rx_search r p (c # cs) = (rx_match r ((p, c # cs), []) \<noteq> [] \<or> rx_search r (Some c) cs)"

definition re_search :: "rx \<Rightarrow> string \<Rightarrow> bool" where
  "re_search r s = rx_search r None s"

text \<open>
  \<open>re.findall\<close> scans from the left and continues after each match. The last branch
  (a match that consumed nothing) is not what \<open>re\<close> does, and none of the patterns
  below can take it: each of them consumes at least one character.
\<close>

fun rx_findall :: "rx \<Rightarrow> char option \<Rightarrow> string \<Rightarrow> caps list" where
  "rx_findall r p [] = (case rx_match r ((p, []), []) of [] \<Rightarrow> [] | y # _ \<Rightarrow> [snd y])"
| "rx_findall r p (c # cs) =
     (case rx_match r ((p, c # cs), []) of
        [] \<Rightarrow> rx_findall r (Some c) cs
      | y # _ \<Rightarrow>
          (if length (snd (fst y)) < length (c # cs)
           then snd y # rx_findall r (fst (fst y)) (snd (fst y))
           else snd y # rx_findall r (Some c) cs))"


text \<open>
  Two syntactic checks for the statements about captures: \<open>consumes r\<close> is a sufficient
  condition for every match of \<open>r\<close> to take at least one character, and
  \<open>has_group i r\<close> says that group \<open>i\<close> is opened inside \<open>r\<close>.
\<close>

fun consumes :: "rx \<Rightarrow> bool" where
  "consumes (Lit w) = (w \<noteq> [])"
| "consumes (Many cl n) = (0 < n)"
| "consumes WordB = False"
| "consumes (Seq a b) = (consumes a \<or> consumes b)"
| "consumes (Alt a b) = (consumes a \<and> consumes b)"
| "consumes (Opt a) = False"
| "consumes (Grp i a) = consumes a"

fun has_group :: "nat \<Rightarrow> rx \<Rightarrow> bool" where
  "has_group i (Lit w) = False"
| "has_group i (Many cl n) = False"
| "has_group i WordB = False"
| "has_group i (Seq a b) = (has_group i a \<or> has_group i b)"
| "has_group i (Alt a b) = (has_group i a \<or> has_group i b)"
| "has_group i (Opt a) = has_group i a"
| "has_group i (Grp j a) = (i = j \<or> has_group i a)"

section \<open>Intent classifier\<close>

datatype QuestionIntent =
  STATUS | ALERTS | ENERGY | COST | CONTROL | ANOMALY | COMPARISON | TREND | SCHEDULE
  | MAINTENANCE | SAFETY | OPTIMIZATION | HISTORY | FORECAST | GENERAL

datatype re_match = MStr string | MTuple "string list"

definition group_text :: "caps \<Rightarrow> nat \<Rightarrow> string" where
  "group_text cs i = (case map_of cs i of None \<Rightarrow> [] | Some g \<Rightarrow> g)"

definition re_findall :: "nat \<Rightarrow> rx \<Rightarrow> string \<Rightarrow> re_match list" where
  "re_findall ngroups r s =
     map (\<lambda>cs. if ngroups = 1 then MStr (group_text cs 1)
                else MTuple (map (group_text cs) [1 ..< Suc ngroups]))
         (rx_findall r None s)"

primrec rx_alts :: "string \<Rightarrow> string list \<Rightarrow> rx" where
  "rx_alts w [] = Lit w"
| "rx_alts w (v # vs) = Alt (Lit w) (rx_alts v vs)"

definition word_pattern :: "string \<Rightarrow> rx" where
  "word_pattern keyword = Seq WordB (Seq (Lit keyword) WordB)"

definition intent_keywords :: "(QuestionIntent \<times> string list) list" where
  "intent_keywords =
     [(STATUS, [''status'', ''state'', ''running'', ''on'', ''off'', ''active'', ''current'',
                ''what is'', ''show me'', ''display'', ''check'']),
      (ALERTS, [''alert'', ''warning'', ''alarm'', ''problem'', ''issue'', ''error'',
                ''notification'', ''critical'', ''urgent'', ''danger'']),
      (ENERGY, [''energy'', ''power'', ''watt'', ''kwh'', ''consumption'', ''usage'',
                ''electricity'', ''draw'', ''load'']),
      (COST, [''cost'', ''price'', ''bill'', ''expense'', ''money'', ''dollar'',
              ''save'', ''savings'', ''expensive'', ''cheap'']),
      (CONTROL, [''turn on'', ''turn off'', ''switch'', ''control'', ''operate'',
                 ''start'', ''stop'', ''enable'', ''disable'', ''toggle'']),
      (ANOMALY, [''anomaly'', ''unusual'', ''abnormal'', ''strange'', ''weird'',
                 ''unexpected'', ''spike'', ''irregular'', ''detect'']),
      (COMPARISON, [''compare'', ''versus'', ''vs'', ''difference'', ''which'',
                    ''better'', ''worse'', ''more'', ''less'', ''between'']),
      (TREND, [''trend'', ''pattern'', ''over time'', ''increasing'', ''decreasing'',
               ''graph'', ''chart'', ''history'', ''change'']),
      (SCHEDULE, [''schedule'', ''timer'', ''automate'', ''automation'', ''when'',
                  ''time'', ''program'', ''routine'', ''set time'']),
      (MAINTENANCE, [''maintenance'', ''repair'', ''fix'', ''service'', ''replace'',
                     ''lifespan'', ''wear'', ''check up'', ''inspection'']),
      (SAFETY, [''safe'', ''safety'', ''dangerous'', ''hazard'', ''risk'',
                ''fire'', ''shock'', ''overload'', ''protection'']),
      (OPTIMIZATION, [''optimize'', ''efficient'', ''efficiency'', ''improve'',
                      ''reduce'', ''lower'', ''minimize'', ''best'', ''tips'']),
      (HISTORY, [''yesterday'', ''last week'', ''last month'', ''previous'',
                 ''historical'', ''past'', ''before'', ''ago'']),
      (FORECAST, [''predict'', ''forecast'', ''future'', ''expect'', ''will'',
                  ''estimate'', ''project'', ''tomorrow'', ''next''])]"

definition load_name_pattern :: rx where
  "load_name_pattern =
     Seq WordB (Seq (Grp 1 (rx_alts ''fan'' [''bulb'', ''heater'', ''ac'', ''dc'', ''motor'',
                                             ''pump'', ''light'', ''lamp''])) WordB)"

definition time_period_pattern :: rx where
  "time_period_pattern =
     Seq WordB (Seq (Grp 1 (rx_alts ''today'' [''yesterday'', ''this week'', ''last week'',
                                               ''this month'', ''hour'', ''day'', ''week'',
                                               ''month''])) WordB)"

definition number_pattern :: rx where
  "number_pattern =
     Seq WordB
      (Seq (Grp 1 (Seq (Many Digit 1) (Opt (Seq (Lit ''.'') (Many Digit 1)))))
        (Seq (Many Space 0)
          (Seq (Opt (Grp 2 (Alt (Lit ''w'') (Alt (Lit ''kw'') (Alt (Lit ''kwh'')
                      (Alt (Seq (Lit ''watt'') (Opt (Lit ''s'')))
                           (Seq (Lit ''kilowatt'') (Opt (Lit ''s'')))))))))
               WordB)))"

definition action_pattern :: rx where
  "action_pattern =
     Seq WordB (Seq (Grp 1 (rx_alts ''turn on'' [''turn off'', ''switch on'', ''switch off'',
                                                 ''start'', ''stop'', ''enable'', ''disable''])) WordB)"

definition entity_patterns :: "(string \<times> nat \<times> rx) list" where
  "entity_patterns =
     [(''load_name'', 1, load_name_pattern),
      (''time_period'', 1, time_period_pattern),
      (''number'', 2, number_pattern),
      (''action'', 1, action_pattern)]"

definition keyword_score :: "string list \<Rightarrow> string \<Rightarrow> int" where
  "keyword_score keywords message_lower =
     sum_list (map (\<lambda>keyword. 1) (filter (\<lambda>keyword. str_contains keyword message_lower) keywords))
     + sum_list (map (\<lambda>keyword. 2)
         (filter (\<lambda>keyword. re_search (word_pattern keyword) message_lower) keywords))"

fun py_max_by :: "('a \<Rightarrow> int) \<Rightarrow> 'a \<Rightarrow> 'a list \<Rightarrow> 'a" where
  "py_max_by f best [] = best"
| "py_max_by f best (x # xs) = py_max_by f (if f x > f best then x else best) xs"

definition intent_scores :: "string \<Rightarrow> (QuestionIntent \<times> int) list" where
  "intent_scores message_lower =
     map (\<lambda>ik. (fst ik, keyword_score (snd ik) message_lower)) intent_keywords"

definition detect_intent :: "string \<Rightarrow> QuestionIntent" where
  "detect_intent msg =
     (case intent_scores (str_lower msg) of
        [] \<Rightarrow> GENERAL
      | x # xs \<Rightarrow>
          (let max_intent = py_max_by snd x xs
           in if snd max_intent > 0 then fst max_intent else GENERAL))"

fun flatten_match :: "re_match \<Rightarrow> string list" where
  "flatten_match (MTuple ms) = filter (\<lambda>m. m \<noteq> []) ms"
| "flatten_match (MStr m) = [m]"

definition extract_entities :: "string \<Rightarrow> (string \<times> string list) list" where
  "extract_entities msg =
     concat (map (\<lambda>ep. let matches = re_findall (fst (snd ep)) (snd (snd ep)) (str_lower msg)
                        in if matches \<noteq> [] then [(fst ep, concat (map flatten_match matches))]
                           else [])
                 entity_patterns)"

text \<open>
  For the statements about \<open>extract_entities\<close>: what the specification gives an entity
  type, from the matches of its pattern (number of groups, pattern) on a text.
\<close>

definition entity_value :: "nat \<times> rx \<Rightarrow> string \<Rightarrow> string list option" where
  "entity_value nr s =
     (if re_findall (fst nr) (snd nr) s = [] then None
      else Some (concat (map flatten_match (re_findall (fst nr) (snd nr) s))))"

definition is_follow_up :: "string \<Rightarrow> bool" where
  "is_follow_up msg =
     list_ex (\<lambda>indicator. str_contains indicator (str_lower msg))
       [''what about'', ''how about'', ''and'', ''also'', ''more'',
        ''tell me more'', ''explain'', ''why'', ''can you'',
        ''elaborate'', ''details'', ''specifically'', ''that'',
        ''this'', ''it'', ''them'', ''those'']"




section \<open>System context\<close>

text \<open>
  The context is a dictionary whose keys may be missing; every read in the source goes
  through \<open>.get\<close>. A load's \<open>is_on\<close> is read for its truth value only and its
  \<open>current_power\<close> always with the default 0, so a missing key is \<open>False\<close> and 0;
  powers are integers. The name, the severity and the message have defaults that differ
  from one place to another and stay optional.
\<close>

record load =
  load_name :: "string option"
  load_is_on :: bool
  load_current_power :: int

record alert =
  alert_severity :: "string option"
  alert_message :: "string option"

record system_context =
  ctx_loads :: "load list option"
  ctx_recentAlerts :: "alert list option"

definition get_loads :: "system_context \<Rightarrow> load list" where
  \<comment> \<open>\<open>context.get('loads', [])\<close>\<close>
  "get_loads c = (case ctx_loads c of None \<Rightarrow> [] | Some ls \<Rightarrow> ls)"

definition get_alerts :: "system_context \<Rightarrow> alert list" where
  \<comment> \<open>\<open>context.get('recentAlerts', [])\<close>\<close>
  "get_alerts c = (case ctx_recentAlerts c of None \<Rightarrow> [] | Some as \<Rightarrow> as)"

definition total_power_of :: "load list \<Rightarrow> int" where
  \<comment> \<open>\<open>sum(l.get('current_power', 0) for l in loads)\<close>\<close>
  "total_power_of ls = sum_list (map load_current_power ls)"

definition active_loads_of :: "load list \<Rightarrow> nat" where
  \<comment> \<open>\<open>sum(1 for l in loads if l.get('is_on'))\<close>\<close>
  "active_loads_of ls = length (filter load_is_on ls)"

section \<open>Quick insights\<close>

record quick_insights =
  health_status :: string
  health_message :: string
  metric_total_power_w :: int
  metric_active_loads :: nat
  metric_total_loads :: nat
  metric_active_alerts :: nat
  metric_critical_alerts :: nat
  quick_tips :: "string list"

definition critical_alerts_of :: "alert list \<Rightarrow> nat" where
  \<comment> \<open>\<open>sum(1 for a in alerts if a.get('severity') == 'critical')\<close>\<close>
  "critical_alerts_of as = length (filter (\<lambda>a. alert_severity a = Some ''critical'') as)"

definition high_power_tips :: "load list \<Rightarrow> string list" where
  "high_power_tips ls =
     map (\<lambda>l. '' '' @ (case load_name l of None \<Rightarrow> ''High-power load'' | Some n \<Rightarrow> n)
                @ '' is consuming significant power'')
         (filter (\<lambda>l. load_is_on l \<and> load_current_power l > 500) ls)"

definition generate_quick_tips :: "nat \<Rightarrow> load list \<Rightarrow> alert list \<Rightarrow> string list" where
  \<comment> \<open>\<open>hour\<close> is \<open>datetime.now().hour\<close>\<close>
  "generate_quick_tips hour ls as =
     (let tips1 = high_power_tips ls;
          tips2 = (if as \<noteq> []
                   then tips1 @ ['' Review '' @ str_nat (length as) @ '' active alert(s) in the Alerts panel'']
                   else tips1);
          tips3 = (if 9 \<le> hour \<and> hour \<le> 17
                   then tips2 @ ['' Peak hours - consider postponing non-essential high-power tasks'']
                   else if hour \<ge> 22 \<or> hour < 6
                   then tips2 @ ['' Off-peak hours - good time for high-power scheduled tasks'']
                   else tips2);
          tips4 = (if tips3 = []
                   then ['' All systems normal - no immediate actions required'']
                   else tips3)
      in take 5 tips4)"

definition get_quick_insights :: "nat \<Rightarrow> system_context \<Rightarrow> quick_insights" where
  "get_quick_insights hour c =
     (let ls = get_loads c;
          as = get_alerts c;
          total_power = total_power_of ls;
          active_loads = active_loads_of ls;
          critical_alerts = critical_alerts_of as;
          health =
            (if critical_alerts > 0
             then (''critical'', '' '' @ str_nat critical_alerts @ '' critical alert(s) require attention'')
             else if length as > 3
             then (''warning'', ''Multiple alerts ('' @ str_nat (length as) @ '') - review recommended'')
             else (''healthy'', ''System operating normally''))
      in \<lparr> health_status = fst health,
           health_message = snd health,
           metric_total_power_w = total_power,
           metric_active_loads = active_loads,
           metric_total_loads = length ls,
           metric_active_alerts = length as,
           metric_critical_alerts = critical_alerts,
           quick_tips = generate_quick_tips hour ls as \<rparr>)"

section \<open>Response guidance\<close>

fun get_intent_guidance :: "QuestionIntent \<Rightarrow> system_context \<Rightarrow> string" where
  "get_intent_guidance STATUS c =
     ''Report the CURRENT STATE of the system or specific loads. '' @
     ''Include on/off status, power readings, and any relevant metrics.''"
| "get_intent_guidance ALERTS c =
     ''Focus on ALERTS and WARNINGS. There are currently '' @ str_nat (length (get_alerts c)) @
     '' active alerts. '' @
     ''Explain severity, affected devices, and recommended actions.''"
| "get_intent_guidance ENERGY c =
     ''Discuss ENERGY CONSUMPTION. Provide power readings in Watts, '' @
     ''consumption in kWh, and contextual comparisons.''"
| "get_intent_guidance COST c =
     ''Analyze COSTS. Calculate estimated expenses, identify high-cost devices, '' @
     ''and suggest cost-saving opportunities.''"
| "get_intent_guidance CONTROL c =
     ''Address CONTROL requests. Evaluate safety before recommending actions. '' @
     ''Consider current load state and any active alerts.''"
| "get_intent_guidance ANOMALY c =
     ''Analyze for ANOMALIES. Look for unusual patterns, unexpected readings, '' @
     ''or deviations from normal operation.''"
| "get_intent_guidance COMPARISON c =
     ''Provide COMPARISON analysis. Compare the requested items/periods '' @
     ''with specific metrics and highlight differences.''"
| "get_intent_guidance TREND c =
     ''Discuss TRENDS over time. Identify patterns, changes in consumption, '' @
     ''and notable shifts in usage behavior.''"
| "get_intent_guidance SCHEDULE c =
     ''Address SCHEDULING. Suggest optimal times for operation, '' @
     ''automation possibilities, and time-based efficiency.''"
| "get_intent_guidance MAINTENANCE c =
     ''Provide MAINTENANCE guidance. Suggest inspection schedules, '' @
     ''signs of wear, and preventive measures.''"
| "get_intent_guidance SAFETY c =
     ''Address SAFETY concerns immediately. Prioritize hazard identification, '' @
     ''protective measures, and emergency procedures.''"
| "get_intent_guidance OPTIMIZATION c =
     ''Focus on OPTIMIZATION and efficiency. Provide actionable tips '' @
     ''to reduce consumption and improve performance.''"
| "get_intent_guidance HISTORY c =
     ''Present HISTORICAL data. Reference past readings, events, '' @
     ''and changes over the specified time period.''"
| "get_intent_guidance FORECAST c =
     ''Provide PREDICTIONS based on current data and historical patterns. '' @
     ''Include confidence levels and assumptions.''"
| "get_intent_guidance GENERAL c =
     ''Provide a comprehensive response using all relevant context. '' @
     ''Be helpful and informative.''"

section \<open>Session history\<close>

datatype MessageRole = USER | ASSISTANT

record chat_turn =
  turn_role :: MessageRole
  turn_content :: string

type_synonym chat_sessions = "string \<rightharpoonup> chat_turn list"

definition last_n :: "nat \<Rightarrow> 'a list \<Rightarrow> 'a list" where
  \<comment> \<open>\<open>xs[-n:]\<close> for \<open>n > 0\<close>\<close>
  "last_n n xs = drop (length xs - n) xs"

definition store_exchange :: "chat_sessions \<Rightarrow> string \<Rightarrow> string \<Rightarrow> string \<Rightarrow> chat_sessions" where
  \<comment> \<open>The endpoint's bookkeeping after a reply: both turns are appended, then the cap.\<close>
  "store_exchange sessions session_id msg response =
     (let h0 = (case sessions session_id of None \<Rightarrow> [] | Some h \<Rightarrow> h);
          h1 = h0 @ [\<lparr> turn_role = USER, turn_content = msg \<rparr>];
          h2 = h1 @ [\<lparr> turn_role = ASSISTANT, turn_content = response \<rparr>];
          h3 = (if length h2 > 20 then last_n 20 h2 else h2)
      in sessions(session_id \<mapsto> h3))"

definition get_history :: "chat_sessions \<Rightarrow> string \<Rightarrow> chat_turn list" where
  \<comment> \<open>\<open>chat_sessions.get(session_id, [])\<close>\<close>
  "get_history sessions session_id = (case sessions session_id of None \<Rightarrow> [] | Some h \<Rightarrow> h)"

definition exchange_turns :: "string \<times> string \<Rightarrow> chat_turn list" where
  "exchange_turns e =
     [\<lparr> turn_role = USER, turn_content = fst e \<rparr>, \<lparr> turn_role = ASSISTANT, turn_content = snd e \<rparr>]"

definition store_exchanges :: "chat_sessions \<Rightarrow> string \<Rightarrow> (string \<times> string) list \<Rightarrow> chat_sessions" where
  \<comment> \<open>Successive completed exchanges of one session, oldest first.\<close>
  "store_exchanges sessions session_id es =
     foldl (\<lambda>s e. store_exchange s session_id (fst e) (snd e)) sessions es"

section \<open>Rate limiter\<close>

text \<open>
  A \<open>datetime\<close> is naive (no time zone): microseconds counted from midnight of day 0
  of the clock the limiter reads, \<open>datetime.utcnow()\<close>. The entry of a user and an action
  is a dictionary whose two keys may each be missing; the nested \<open>defaultdict\<close> gives
  the empty dictionary to a pair that was never touched.
\<close>

record usage =
  usage_count :: "int option"
  usage_reset_at :: "int option"

type_synonym limits = "string \<times> string \<rightharpoonup> usage"

record rate_check =
  rc_allowed :: bool
  rc_remaining :: int
  rc_limit :: int
  rc_reset_at :: int
  rc_current_count :: int

definition day_us :: int where
  "day_us = 86400000000"

definition next_midnight :: "int \<Rightarrow> int" where
  \<comment> \<open>\<open>(now + timedelta(days=1)).replace(hour=0, minute=0, second=0, microsecond=0)\<close>\<close>
  "next_midnight now = ((now + day_us) div day_us) * day_us"

definition local_next_midnight :: "int \<Rightarrow> int \<Rightarrow> int" where
  \<comment> \<open>The spec's words, for comparison: the start of the next calendar day in a zone
      \<open>utc_offset\<close> microseconds east of UTC, as an instant of the UTC clock.\<close>
  "local_next_midnight utc_offset now =
     ((now + utc_offset) div day_us + 1) * day_us - utc_offset"

definition entry_of :: "limits \<Rightarrow> string \<Rightarrow> string \<Rightarrow> usage" where
  \<comment> \<open>\<open>self._limits[user_id][action_type]\<close>\<close>
  "entry_of st user_id action_type =
     (case st (user_id, action_type) of
        None \<Rightarrow> \<lparr> usage_count = None, usage_reset_at = None \<rparr>
      | Some e \<Rightarrow> e)"

definition count_of :: "usage \<Rightarrow> int" where
  \<comment> \<open>\<open>.get('count', 0)\<close>\<close>
  "count_of e = (case usage_count e of None \<Rightarrow> 0 | Some n \<Rightarrow> n)"

definition needs_reset :: "int \<Rightarrow> usage \<Rightarrow> bool" where
  \<comment> \<open>\<open>not reset_at or now >= reset_at\<close>\<close>
  "needs_reset now e = (case usage_reset_at e of None \<Rightarrow> True | Some r \<Rightarrow> now \<ge> r)"

definition check_rate_limit :: "int \<Rightarrow> limits \<Rightarrow> string \<Rightarrow> string \<Rightarrow> int \<Rightarrow> rate_check \<times> limits" where
  \<comment> \<open>\<open>now\<close> is the clock read on entry. After the reset branch the entry always has its
      \<open>reset_at\<close>, so the \<open>None\<close> case of the returned \<open>reset_at\<close> is never taken.\<close>
  "check_rate_limit now st user_id action_type lim =
     (let e0 = entry_of st user_id action_type;
          e1 = (if needs_reset now e0
                then \<lparr> usage_count = Some 0, usage_reset_at = Some (next_midnight now) \<rparr>
                else e0);
          current_count = count_of e1;
          remaining = max 0 (lim - current_count)
      in (\<lparr> rc_allowed = (current_count < lim),
            rc_remaining = remaining,
            rc_limit = lim,
            rc_reset_at = (case usage_reset_at e1 of Some r \<Rightarrow> r | None \<Rightarrow> next_midnight now),
            rc_current_count = current_count \<rparr>,
          st((user_id, action_type) \<mapsto> e1)))"

definition increment_count :: "limits \<Rightarrow> string \<Rightarrow> string \<Rightarrow> int \<times> limits" where
  "increment_count st user_id action_type =
     (let e0 = entry_of st user_id action_type;
          n = count_of e0 + 1
      in (n, st((user_id, action_type) \<mapsto> e0\<lparr> usage_count := Some n \<rparr>)))"

fun increments :: "nat \<Rightarrow> limits \<Rightarrow> string \<Rightarrow> string \<Rightarrow> limits" where
  \<comment> \<open>\<open>increment_count\<close> called \<open>n\<close> times in a row\<close>
  "increments 0 st user_id action_type = st"
| "increments (Suc n) st user_id action_type =
     increments n (snd (increment_count st user_id action_type)) user_id action_type"

fun checks :: "int list \<Rightarrow> limits \<Rightarrow> string \<Rightarrow> string \<Rightarrow> int \<Rightarrow> rate_check list \<times> limits" where
  \<comment> \<open>\<open>check_rate_limit\<close> called at each of the given times in a row, nothing in between\<close>
  "checks [] st user_id action_type lim = ([], st)"
| "checks (t # ts) st user_id action_type lim =
     (let (r, st1) = check_rate_limit t st user_id action_type lim;
          (rs, st2) = checks ts st1 user_id action_type lim
      in (r # rs, st2))"

section \<open>Language model service\<close>

text \<open>
  What a provider call does is an input of the model: it raises, or it returns a text
  (the empty text also stands for a missing or empty response). The prompt is not
  modelled; the chat history feeds nothing but the prompt.
\<close>

datatype provider_reply = ProviderError | ProviderText string

record gemini_service =
  gs_initialized :: bool
  gs_has_model :: bool
  gs_cerebras_api_key :: "string option"

definition truthy :: "string option \<Rightarrow> bool" where
  "truthy k = (case k of None \<Rightarrow> False | Some v \<Rightarrow> v \<noteq> [])"

definition gemini_init :: "string option \<Rightarrow> string option \<Rightarrow> bool \<Rightarrow> gemini_service" where
  \<comment> \<open>\<open>sdk_ok\<close>: configuring the SDK and creating the model raise nothing\<close>
  "gemini_init api_key cerebras_api_key sdk_ok =
     (if \<not> truthy api_key
      then (if truthy cerebras_api_key
            then \<lparr> gs_initialized = True, gs_has_model = False, gs_cerebras_api_key = cerebras_api_key \<rparr>
            else \<lparr> gs_initialized = False, gs_has_model = False, gs_cerebras_api_key = cerebras_api_key \<rparr>)
      else if sdk_ok
      then \<lparr> gs_initialized = True, gs_has_model = True, gs_cerebras_api_key = cerebras_api_key \<rparr>
      else if truthy cerebras_api_key
      then \<lparr> gs_initialized = True, gs_has_model = False, gs_cerebras_api_key = cerebras_api_key \<rparr>
      else \<lparr> gs_initialized = False, gs_has_model = False, gs_cerebras_api_key = cerebras_api_key \<rparr>)"

definition call_gemini :: "gemini_service \<Rightarrow> provider_reply \<Rightarrow> provider_reply" where
  \<comment> \<open>\<open>self.model.generate_content\<close>: without a model the attribute lookup raises\<close>
  "call_gemini svc gemini_reply = (if gs_has_model svc then gemini_reply else ProviderError)"

definition load_status_line :: "load \<Rightarrow> string" where
  "load_status_line l =
     bullet @ '' **'' @ (case load_name l of None \<Rightarrow> ''Unknown'' | Some n \<Rightarrow> n) @ ''**: '' @
     (if load_is_on l then ''ON'' else ''OFF'') @ '' ('' @ str_int (load_current_power l) @ ''W)''"

definition alert_line :: "alert \<Rightarrow> string" where
  "alert_line a =
     bullet @ '' **'' @ str_upper (case alert_severity a of None \<Rightarrow> ''Info'' | Some v \<Rightarrow> v) @ ''**: '' @
     (case alert_message a of None \<Rightarrow> ''No message'' | Some m \<Rightarrow> m)"

definition load_breakdown_line :: "load \<Rightarrow> string" where
  "load_breakdown_line l =
     bullet @ '' '' @ (case load_name l of None \<Rightarrow> ''Unknown'' | Some n \<Rightarrow> n) @ '': '' @
     str_int (load_current_power l) @ ''W''"

definition generate_fallback_response :: "string \<Rightarrow> system_context \<Rightarrow> string" where
  "generate_fallback_response msg c =
     (let message_lower = str_lower msg;
          ls = get_loads c;
          as = get_alerts c
      in if list_ex (\<lambda>w. str_contains w message_lower) [''status'', ''state'', ''how'', ''what'']
         then (let load_status = map load_status_line ls
               in ''## Current System Status\<newline>\<newline>### Load States\<newline>'' @
                  (if load_status \<noteq> [] then str_join ''\<newline>'' load_status
                   else ''No load data available'') @
                  ''\<newline>\<newline>### Active Alerts\<newline>'' @
                  (if as \<noteq> [] then '' '' @ str_nat (length as) @ '' active alert(s)''
                   else '' No active alerts'') @
                  ''\<newline>\<newline>### Summary\<newline>The system is operating '' @
                  (if as = [] then ''normally'' else ''with some alerts that need attention'') @
                  ''.\<newline>\<newline>---\<newline>Would you like more details about any specific load or alert?'')
         else if list_ex (\<lambda>w. str_contains w message_lower) [''alert'', ''warning'', ''problem'', ''issue'']
         then (if as \<noteq> []
               then ''## Active Alerts\<newline>\<newline>'' @
                    str_join ''\<newline>'' (map alert_line (take 5 as)) @
                    ''\<newline>\<newline>### Recommendations\<newline>'' @
                    ''- Check the affected loads for any physical issues\<newline>'' @
                    ''- Review the power readings for anomalies\<newline>'' @
                    ''- Consider reducing load if power consumption is high\<newline>'' @
                    ''\<newline>---\<newline>Need help with a specific alert?''
               else ''## Alert Status\<newline>\<newline> **No active alerts!**\<newline>\<newline>'' @
                    ''Your system is operating normally. All loads are within expected parameters.'' @
                    ''\<newline>\<newline>---\<newline>Is there anything specific you'd like me to check?'')
         else if list_ex (\<lambda>w. str_contains w message_lower) [''energy'', ''power'', ''consumption'', ''cost'']
         then ''## Energy Overview\<newline>\<newline>### Current Consumption\<newline>**Total Power**: '' @
              str_int (total_power_of ls) @ ''W\<newline>\<newline>### Load Breakdown\<newline>'' @
              str_join ''\<newline>'' (map load_breakdown_line ls) @
              ''\<newline>\<newline>### Energy-Saving Tips\<newline>'' @
              ''1. Turn off unused devices during peak hours\<newline>'' @
              ''2. Consider using timers for heaters\<newline>'' @
              ''3. Monitor high-consumption devices closely\<newline>'' @
              ''\<newline>---\<newline>Would you like a detailed energy report?''
         else ''## Smart Load Dashboard Assistant\<newline>\<newline>'' @
              ''I'm here to help you with your smart electrical monitoring system!\<newline>\<newline>'' @
              ''### What I Can Help With\<newline>'' @
              bullet @ '' **System Status** - Check current load states and readings\<newline>'' @
              bullet @ '' **Alerts & Warnings** - View and understand active alerts\<newline>'' @
              bullet @ '' **Energy Analysis** - Get insights on power consumption\<newline>'' @
              bullet @ '' **Control Recommendations** - Safe operation guidance\<newline>'' @
              bullet @ '' **Troubleshooting** - Help diagnose issues\<newline>\<newline>'' @
              ''### Current Quick Stats\<newline>'' @
              ''- Active Loads: '' @ str_nat (active_loads_of ls) @ '' / '' @ str_nat (length ls) @ ''\<newline>'' @
              ''- Total Power: '' @ str_int (total_power_of ls) @ ''W\<newline>'' @
              ''- Active Alerts: '' @ str_nat (length as) @ ''\<newline>'' @
              ''\<newline>---\<newline>How can I assist you today?'')"

definition chat :: "gemini_service \<Rightarrow> provider_reply \<Rightarrow> provider_reply \<Rightarrow> string \<Rightarrow> system_context
    \<Rightarrow> chat_turn list \<Rightarrow> string" where
  \<comment> \<open>\<open>gemini_reply\<close>, \<open>cerebras_reply\<close>: what each provider does with the prompt. The outer
      handler of the source only catches a failure while the prompt is built, which the
      typed context rules out.\<close>
  "chat svc gemini_reply cerebras_reply msg c chat_history =
     (if \<not> gs_initialized svc then generate_fallback_response msg c
      else case call_gemini svc gemini_reply of
             ProviderText t \<Rightarrow>
               (if t \<noteq> [] then str_strip t
                else if truthy (gs_cerebras_api_key svc)
                then (case cerebras_reply of
                        ProviderText r \<Rightarrow> str_strip r
                      | ProviderError \<Rightarrow> generate_fallback_response msg c)
                else generate_fallback_response msg c)
           | ProviderError \<Rightarrow>
               (if truthy (gs_cerebras_api_key svc)
                then (case cerebras_reply of
                        ProviderText r \<Rightarrow> str_strip r
                      | ProviderError \<Rightarrow> generate_fallback_response msg c)
                else generate_fallback_response msg c))"

subsection \<open>Structured endpoints\<close>

datatype json =
  JNull | JBool bool | JNum int | JStr string | JArr "json list" | JObj "(string \<times> json) list"

fun str_split_from :: "string \<Rightarrow> string \<Rightarrow> string \<Rightarrow> string list" where
  \<comment> \<open>\<open>s.split(sep)\<close> for a separator that is not empty; \<open>acc\<close> is the current piece, reversed\<close>
  "str_split_from sep acc [] = [rev acc]"
| "str_split_from sep acc (c # cs) =
     (if sep \<noteq> [] \<and> prefix sep (c # cs)
      then rev acc # str_split_from sep [] (drop (length sep) (c # cs))
      else str_split_from sep (c # acc) cs)"

definition str_split :: "string \<Rightarrow> string \<Rightarrow> string list" where
  "str_split sep s = str_split_from sep [] s"

definition clean_json_text :: "string \<Rightarrow> string option" where
  \<comment> \<open>The cleaning the three structured endpoints share, word for word; \<open>None\<close> is the
      \<open>IndexError\<close> of \<open>[1]\<close>.\<close>
  "clean_json_text raw =
     (let text = str_strip raw
      in if str_startswith text ''```''
         then (case str_split ''```'' text of
                 _ # t1 # _ \<Rightarrow>
                   Some (str_strip (if str_startswith t1 ''json'' then drop 4 t1 else t1))
               | _ \<Rightarrow> None)
         else Some text)"

definition parse_reply :: "(string \<Rightarrow> json option) \<Rightarrow> string \<Rightarrow> json option" where
  \<comment> \<open>\<open>json.loads\<close> of the cleaned text; \<open>loads\<close> is \<open>json.loads\<close>, \<open>None\<close> its exception\<close>
  "parse_reply loads raw = (case clean_json_text raw of None \<Rightarrow> None | Some text \<Rightarrow> loads text)"




definition get_control_recommendation :: "gemini_service \<Rightarrow> provider_reply \<Rightarrow> (string \<Rightarrow> json option)
    \<Rightarrow> json" where
  "get_control_recommendation svc gemini_reply loads =
     (if \<not> gs_initialized svc
      then JObj [(''approved'', JBool True), (''reason'', JStr ''AI not available, allowing action''),
                 (''warnings'', JArr [])]
      else case (case call_gemini svc gemini_reply of
                   ProviderError \<Rightarrow> None
                 | ProviderText t \<Rightarrow> if t = [] then None else parse_reply loads t) of
             Some d \<Rightarrow> d
           | None \<Rightarrow>
               JObj [(''approved'', JBool True), (''reason'', JStr ''Could not process recommendation''),
                     (''warnings'', JArr [])])"

definition approved_of :: "json \<Rightarrow> json option" where
  \<comment> \<open>the \<open>approved\<close> entry of a recommendation, when it is a dictionary that has one\<close>
  "approved_of r = (case r of JObj kvs \<Rightarrow> map_of kvs ''approved'' | _ \<Rightarrow> None)"

definition dq :: string where
  "dq = [CHR 0x22]"


fun take_json_string :: "string \<Rightarrow> (string \<times> string) option" where
  \<comment> \<open>after an opening quote: the characters up to the closing quote, and the rest\<close>
  "take_json_string [] = None"
| "take_json_string (c # cs) =
     (if c = CHR 0x22 then Some ([], cs)
      else if c = CHR 0x5C \<or> (of_char c :: nat) < 32 then None
      else (case take_json_string cs of None \<Rightarrow> None | Some (v, rest) \<Rightarrow> Some (c # v, rest)))"

definition json_ws :: "char \<Rightarrow> bool" where
  "json_ws c = (c = CHR '' '' \<or> c = CHR 0x09 \<or> c = CHR 0x0A \<or> c = CHR 0x0D)"

definition loads_one_pair :: "string \<Rightarrow> json option" where
  \<comment> \<open>\<open>json.loads\<close> on the documents the examples use: an object with one key and a string
      value without escapes. Every other text is treated as an error here.\<close>
  "loads_one_pair s =
     (case dropWhile json_ws s of
        c1 # s1 \<Rightarrow>
          (if c1 \<noteq> CHR ''{'' then None
           else case dropWhile json_ws s1 of
             c2 # s2 \<Rightarrow>
               (if c2 \<noteq> CHR 0x22 then None
                else case take_json_string s2 of
                  None \<Rightarrow> None
                | Some (k, s3) \<Rightarrow>
                    (case dropWhile json_ws s3 of
                       c4 # s4 \<Rightarrow>
                         (if c4 \<noteq> CHR '':'' then None
                          else case dropWhile json_ws s4 of
                            c5 # s5 \<Rightarrow>
                              (if c5 \<noteq> CHR 0x22 then None
                               else case take_json_string s5 of
                                 None \<Rightarrow> None
                               | Some (v, s6) \<Rightarrow>
                                   (case dropWhile json_ws s6 of
                                      c7 # s7 \<Rightarrow>
                                        (if c7 = CHR ''}'' \<and> dropWhile json_ws s7 = []
                                         then Some (JObj [(k, JStr v)]) else None)
                                    | [] \<Rightarrow> None))
                          | [] \<Rightarrow> None)
                     | [] \<Rightarrow> None))
           | [] \<Rightarrow> None)
      | [] \<Rightarrow> None)"

section \<open>Agent\<close>

record query_result =
  qr_response :: string
  qr_intent :: QuestionIntent
  qr_entities :: "(string \<times> string list) list"
  qr_is_follow_up :: bool
  qr_ai_enabled :: bool

definition enhance_response :: "string \<Rightarrow> QuestionIntent \<Rightarrow> system_context \<Rightarrow> string" where
  "enhance_response response intent c =
     (if intent = ALERTS \<and> get_alerts c \<noteq> [] \<and> \<not> str_contains ''alert'' (str_lower response)
      then response @ ''\<newline>\<newline>---\<newline>**Quick Alert Summary**: '' @
           str_nat (length (get_alerts c)) @ '' active alert(s)''
      else if intent = ENERGY \<and> \<not> str_contains (str_int (total_power_of (get_loads c))) response
      then response @ ''\<newline>\<newline>---\<newline>**Current Total Power**: '' @
           str_int (total_power_of (get_loads c)) @ ''W''
      else response)"

definition process_query :: "gemini_service \<Rightarrow> provider_reply \<Rightarrow> provider_reply \<Rightarrow> string
    \<Rightarrow> system_context \<Rightarrow> chat_turn list \<Rightarrow> query_result" where
  \<comment> \<open>the timestamp of the result is left out\<close>
  "process_query svc gemini_reply cerebras_reply msg c chat_history =
     (let intent = detect_intent msg;
          entities = extract_entities msg;
          follow_up = is_follow_up msg;
          response = chat svc gemini_reply cerebras_reply msg c chat_history
      in \<lparr> qr_response = enhance_response response intent c,
           qr_intent = intent,
           qr_entities = entities,
           qr_is_follow_up = follow_up,
           qr_ai_enabled = gs_initialized svc \<rparr>)"

section \<open>Properties of the quick insights\<close>

lemma critical_alerts_of_pos:
  "(0 < critical_alerts_of as) = list_ex (\<lambda>a. alert_severity a = Some ''critical'') as"
  by (induction as) (simp_all add: critical_alerts_of_def)

text \<open>
  C7. The health status of the quick insights is \<open>critical\<close> exactly when some alert
  under the context's \<open>recentAlerts\<close> has the severity \<open>critical\<close>, whatever the loads
  are; otherwise it is \<open>warning\<close> exactly when there are more than 3 alerts; otherwise
  it is \<open>healthy\<close>, in particular when there is no alert or the key is missing.
\<close>

theorem quick_insights_health_status:
  "health_status (get_quick_insights hour c) =
     (if list_ex (\<lambda>a. alert_severity a = Some ''critical'')
           (case ctx_recentAlerts c of None \<Rightarrow> [] | Some as \<Rightarrow> as)
      then ''critical''
      else if 3 < length (case ctx_recentAlerts c of None \<Rightarrow> [] | Some as \<Rightarrow> as)
      then ''warning''
      else ''healthy'')"
  by (simp add: get_quick_insights_def Let_def critical_alerts_of_pos get_alerts_def)

text \<open>
  The three cases of C7 on concrete contexts: one critical alert (loads on, off or
  missing), four alerts none of them critical, three such alerts, no alert, no key.
\<close>

theorem quick_insights_health_status_witness:
  "health_status (get_quick_insights 10
      \<lparr> ctx_loads = Some [\<lparr> load_name = Some ''AC Heater'', load_is_on = True, load_current_power = 900 \<rparr>,
                          \<lparr> load_name = Some ''DC Fan'', load_is_on = False, load_current_power = 0 \<rparr>],
        ctx_recentAlerts = Some [\<lparr> alert_severity = Some ''critical'', alert_message = Some ''overcurrent'' \<rparr>] \<rparr>)
     = ''critical'' \<and>
   health_status (get_quick_insights 23
      \<lparr> ctx_loads = None,
        ctx_recentAlerts = Some [\<lparr> alert_severity = Some ''warning'', alert_message = None \<rparr>,
                                 \<lparr> alert_severity = Some ''critical'', alert_message = None \<rparr>] \<rparr>)
     = ''critical'' \<and>
   health_status (get_quick_insights 10
      \<lparr> ctx_loads = Some [],
        ctx_recentAlerts = Some [\<lparr> alert_severity = Some ''warning'', alert_message = None \<rparr>,
                                 \<lparr> alert_severity = Some ''info'', alert_message = None \<rparr>,
                                 \<lparr> alert_severity = None, alert_message = None \<rparr>,
                                 \<lparr> alert_severity = Some ''CRITICAL'', alert_message = None \<rparr>] \<rparr>)
     = ''warning'' \<and>
   health_status (get_quick_insights 10
      \<lparr> ctx_loads = Some [],
        ctx_recentAlerts = Some [\<lparr> alert_severity = Some ''warning'', alert_message = None \<rparr>,
                                 \<lparr> alert_severity = Some ''info'', alert_message = None \<rparr>,
                                 \<lparr> alert_severity = None, alert_message = None \<rparr>] \<rparr>)
     = ''healthy'' \<and>
   health_status (get_quick_insights 10 \<lparr> ctx_loads = Some [], ctx_recentAlerts = Some [] \<rparr>)
     = ''healthy'' \<and>
   health_status (get_quick_insights 10 \<lparr> ctx_loads = None, ctx_recentAlerts = None \<rparr>)
     = ''healthy''"
  using
    quick_insights_health_status [of 10
      "\<lparr> ctx_loads = Some [\<lparr> load_name = Some ''AC Heater'', load_is_on = True, load_current_power = 900 \<rparr>,
                          \<lparr> load_name = Some ''DC Fan'', load_is_on = False, load_current_power = 0 \<rparr>],
        ctx_recentAlerts = Some [\<lparr> alert_severity = Some ''critical'', alert_message = Some ''overcurrent'' \<rparr>] \<rparr>"]
    quick_insights_health_status [of 23
      "\<lparr> ctx_loads = None,
        ctx_recentAlerts = Some [\<lparr> alert_severity = Some ''warning'', alert_message = None \<rparr>,
                                 \<lparr> alert_severity = Some ''critical'', alert_message = None \<rparr>] \<rparr>"]
    quick_insights_health_status [of 10
      "\<lparr> ctx_loads = Some [],
        ctx_recentAlerts = Some [\<lparr> alert_severity = Some ''warning'', alert_message = None \<rparr>,
                                 \<lparr> alert_severity = Some ''info'', alert_message = None \<rparr>,
                                 \<lparr> alert_severity = None, alert_message = None \<rparr>,
                                 \<lparr> alert_severity = Some ''CRITICAL'', alert_message = None \<rparr>] \<rparr>"]
    quick_insights_health_status [of 10
      "\<lparr> ctx_loads = Some [],
        ctx_recentAlerts = Some [\<lparr> alert_severity = Some ''warning'', alert_message = None \<rparr>,
                                 \<lparr> alert_severity = Some ''info'', alert_message = None \<rparr>,
                                 \<lparr> alert_severity = None, alert_message = None \<rparr>] \<rparr>"]
    quick_insights_health_status [of 10 "\<lparr> ctx_loads = Some [], ctx_recentAlerts = Some [] \<rparr>"]
    quick_insights_health_status [of 10 "\<lparr> ctx_loads = None, ctx_recentAlerts = None \<rparr>"]
  by simp

section \<open>Properties of the response guidance\<close>

lemma guidance_context_free:
  "i \<noteq> ALERTS \<Longrightarrow> get_intent_guidance i c = get_intent_guidance i c'"
  by (cases i) simp_all

text \<open>
  C9 (as amended). The guidance selector is a lookup from the intent to an instruction
  text and only the \<open>alerts\<close> category reads the context: its text carries the number of
  alerts of the context. The text of every other category, \<open>energy\<close> included, is the
  same for all contexts.
\<close>

theorem guidance_only_alerts_reads_context:
  "(i \<noteq> ALERTS \<longrightarrow> get_intent_guidance i c = get_intent_guidance i c') \<and>
   get_intent_guidance ALERTS c =
     ''Focus on ALERTS and WARNINGS. There are currently '' @ str_nat (length (get_alerts c)) @
     '' active alerts. Explain severity, affected devices, and recommended actions.''"
  using guidance_context_free[of i c c'] by simp

theorem guidance_only_alerts_reads_context_witness:
  "ENERGY \<noteq> ALERTS \<and>
   get_intent_guidance ENERGY \<lparr> ctx_loads = None, ctx_recentAlerts = None \<rparr>
     = get_intent_guidance ENERGY
         \<lparr> ctx_loads = None,
           ctx_recentAlerts = Some [\<lparr> alert_severity = Some ''warning'', alert_message = None \<rparr>,
                                    \<lparr> alert_severity = None, alert_message = None \<rparr>] \<rparr>"
  using guidance_only_alerts_reads_context
    [of ENERGY "\<lparr> ctx_loads = None, ctx_recentAlerts = None \<rparr>"
        "\<lparr> ctx_loads = None,
           ctx_recentAlerts = Some [\<lparr> alert_severity = Some ''warning'', alert_message = None \<rparr>,
                                    \<lparr> alert_severity = None, alert_message = None \<rparr>] \<rparr>"]
  by simp

text \<open>
  C9 as stated fails: for \<open>energy\<close> the text is the same with no alert and with one
  alert, while the text for \<open>alerts\<close> differs between the two.
\<close>

theorem guidance_energy_ignores_alert_count:
  "get_intent_guidance ENERGY \<lparr> ctx_loads = Some [], ctx_recentAlerts = Some [] \<rparr>
     = get_intent_guidance ENERGY
         \<lparr> ctx_loads = Some [],
           ctx_recentAlerts = Some [\<lparr> alert_severity = Some ''critical'', alert_message = Some ''overcurrent'' \<rparr>] \<rparr>
   \<and> get_intent_guidance ALERTS \<lparr> ctx_loads = Some [], ctx_recentAlerts = Some [] \<rparr>
     \<noteq> get_intent_guidance ALERTS
         \<lparr> ctx_loads = Some [],
           ctx_recentAlerts = Some [\<lparr> alert_severity = Some ''critical'', alert_message = Some ''overcurrent'' \<rparr>] \<rparr>"
  by (simp add: get_alerts_def)

section \<open>Properties of the session history\<close>

lemma last_n_len: "length (last_n n xs) \<le> n" by (simp add: last_n_def)

lemma last_n_last_n: "last_n n (last_n n xs @ ys) = last_n n (xs @ ys)"
proof (cases "length xs \<le> n")
  case True
  then show ?thesis by (simp add: last_n_def)
next
  case False
  then have "length xs - n + n = length xs" by simp
  then show ?thesis by (simp add: last_n_def add.commute)
qed

lemma store_exchange_get:
  "get_history (store_exchange s sid m r) sid = last_n 20 (get_history s sid @ exchange_turns (m, r))"
  by (simp add: store_exchange_def get_history_def exchange_turns_def Let_def last_n_def split: option.splits)

lemma store_exchange_other:
  "sid' \<noteq> sid \<Longrightarrow> get_history (store_exchange s sid m r) sid' = get_history s sid'"
  by (simp add: store_exchange_def get_history_def Let_def)

lemma store_exchanges_get:
  "es \<noteq> [] \<Longrightarrow> get_history (store_exchanges s sid es) sid = last_n 20 (get_history s sid @ concat (map exchange_turns es))"
proof (induction es arbitrary: s rule: rev_induct)
  case Nil then show ?case by simp
next
  case (snoc e es)
  show ?case
  proof (cases "es = []")
    case True
    then show ?thesis by (simp add: store_exchanges_def store_exchange_get)
  next
    case False
    with snoc.IH[of s] have "get_history (store_exchanges s sid es) sid = last_n 20 (get_history s sid @ concat (map exchange_turns es))" by simp
    then show ?thesis
      by (simp add: store_exchanges_def store_exchange_get last_n_last_n)
  qed
qed

text \<open>
  C5. After one or more completed exchanges of a session, whatever was stored before, the
  session holds at most 20 turns: the last 20 of the old history followed by all the new
  turns in order. What is dropped is dropped from the front, so the stored history is a
  suffix of the full sequence.
\<close>

theorem session_history_capped_fifo:
  "length (get_history (store_exchanges s sid (e # es)) sid) \<le> 20 \<and>
   get_history (store_exchanges s sid (e # es)) sid
     = last_n 20 (get_history s sid @ concat (map exchange_turns (e # es))) \<and>
   suffix (get_history (store_exchanges s sid (e # es)) sid)
          (get_history s sid @ concat (map exchange_turns (e # es)))"
proof -
  have eq: "get_history (store_exchanges s sid (e # es)) sid
     = last_n 20 (get_history s sid @ concat (map exchange_turns (e # es)))"
    by (rule store_exchanges_get) simp
  have "suffix (last_n 20 xs) xs" for xs :: "chat_turn list"
    by (simp add: last_n_def suffix_drop)
  then show ?thesis
    unfolding eq by (simp add: last_n_len)
qed

section \<open>Properties of the rate limiter\<close>

lemma entry_of_upd_same: "entry_of (st((u, a) \<mapsto> e)) u a = e"
  by (simp add: entry_of_def)

lemma entry_present: "usage_reset_at (entry_of st u a) = Some r \<Longrightarrow> st((u, a) \<mapsto> entry_of st u a) = st"
  by (auto simp: entry_of_def fun_eq_iff split: option.splits)

lemma check_in_window:
  assumes "usage_reset_at (entry_of st u a) = Some r" "now < r"
  shows "check_rate_limit now st u a L =
          (\<lparr> rc_allowed = (count_of (entry_of st u a) < L),
             rc_remaining = max 0 (L - count_of (entry_of st u a)),
             rc_limit = L, rc_reset_at = r,
             rc_current_count = count_of (entry_of st u a) \<rparr>, st)"
  using assms entry_present[OF assms(1)]
  by (simp add: check_rate_limit_def needs_reset_def Let_def)

lemma check_resets:
  assumes "needs_reset now (entry_of st u a)"
  shows "check_rate_limit now st u a L =
          (\<lparr> rc_allowed = (0 < L), rc_remaining = max 0 L, rc_limit = L,
             rc_reset_at = next_midnight now, rc_current_count = 0 \<rparr>,
           st((u, a) \<mapsto> \<lparr> usage_count = Some 0, usage_reset_at = Some (next_midnight now) \<rparr>))"
  using assms by (simp add: check_rate_limit_def Let_def count_of_def)

lemma check_opens_window:
  "check_rate_limit now st0 u a L0 = (r0, st) \<Longrightarrow>
   usage_reset_at (entry_of st u a) = Some (rc_reset_at r0) \<and> count_of (entry_of st u a) = rc_current_count r0"
  by (cases "needs_reset now (entry_of st0 u a)")
     (auto simp: check_rate_limit_def Let_def entry_of_upd_same needs_reset_def split: option.splits)

lemma increment_entry:
  "entry_of (snd (increment_count st u a)) u a
     = (entry_of st u a)\<lparr> usage_count := Some (count_of (entry_of st u a) + 1) \<rparr>"
  by (simp add: increment_count_def Let_def entry_of_upd_same)

lemma increments_entry:
  "usage_reset_at (entry_of (increments n st u a) u a) = usage_reset_at (entry_of st u a) \<and>
   count_of (entry_of (increments n st u a) u a) = count_of (entry_of st u a) + int n"
  by (induction n arbitrary: st) (simp_all add: increment_entry count_of_def)

lemma checks_in_window:
  assumes "usage_reset_at (entry_of st u a) = Some r" "\<forall>t\<in>set ts. t < r"
  shows "snd (checks ts st u a L) = st \<and>
         (\<forall>res\<in>set (fst (checks ts st u a L)). rc_current_count res = count_of (entry_of st u a))"
  using assms
  by (induction ts) (simp_all add: check_in_window case_prod_beta)

lemma next_midnight_bounds:
  "next_midnight now mod day_us = 0 \<and> now < next_midnight now \<and> next_midnight now \<le> now + day_us"
proof -
  have d: "(0::int) < day_us" by (simp add: day_us_def)
  define m where "m = now + day_us"
  have e: "m div day_us * day_us = m - m mod day_us"
    by (simp only: minus_mod_eq_div_mult)
  have b: "0 \<le> m mod day_us" "m mod day_us < day_us"
    using d by simp_all
  have "next_midnight now mod day_us = 0"
    unfolding next_midnight_def by simp
  moreover have "now < next_midnight now" "next_midnight now \<le> now + day_us"
    unfolding next_midnight_def m_def[symmetric] e using b by (simp_all add: m_def)
  ultimately show ?thesis by simp
qed

text \<open>
  C3 (as amended). Once a call of \<open>check_rate_limit\<close> has run for a user and an action
  (it opens the window, or finds it open), and as long as the clock stays before the
  \<open>reset_at\<close> it reported: further checks change neither the state nor the reported
  count, and \<open>N\<close> increments followed by a check report the count of that first check
  plus \<open>N\<close>, with \<open>allowed\<close> saying whether that is below the limit. When the first
  check did the reset its count is 0, so the count reported is \<open>N\<close>.
\<close>

theorem rate_limit_counts_within_window:
  assumes "check_rate_limit t0 st0 u a L0 = (r0, st)"
    and "\<forall>t\<in>set ts. t < rc_reset_at r0"
    and "t < rc_reset_at r0"
  shows "snd (checks ts st u a L) = st \<and>
         (\<forall>res\<in>set (fst (checks ts st u a L)). rc_current_count res = rc_current_count r0) \<and>
         rc_current_count (fst (check_rate_limit t (increments N st u a) u a L))
           = rc_current_count r0 + int N \<and>
         rc_allowed (fst (check_rate_limit t (increments N st u a) u a L))
           = (rc_current_count r0 + int N < L) \<and>
         (needs_reset t0 (entry_of st0 u a) \<longrightarrow> rc_current_count r0 = 0)"
proof -
  from check_opens_window[OF assms(1)]
  have w: "usage_reset_at (entry_of st u a) = Some (rc_reset_at r0)"
    and c: "count_of (entry_of st u a) = rc_current_count r0" by simp_all
  have inc: "usage_reset_at (entry_of (increments N st u a) u a) = Some (rc_reset_at r0)"
    "count_of (entry_of (increments N st u a) u a) = rc_current_count r0 + int N"
    using increments_entry[of N st u a] w c by simp_all
  have "needs_reset t0 (entry_of st0 u a) \<longrightarrow> rc_current_count r0 = 0"
    using assms(1) by (auto simp: check_resets)
  then show ?thesis
    using checks_in_window[OF w assms(2), of L] c
      check_in_window[OF inc(1) assms(3), of L] inc(2)
    by simp
qed

theorem rate_limit_counts_within_window_witness:
  "snd (checks [1, 2] (snd (check_rate_limit 0 Map.empty ''u'' ''chat'' 100)) ''u'' ''chat'' 100)
     = snd (check_rate_limit 0 Map.empty ''u'' ''chat'' 100) \<and>
   rc_current_count (fst (check_rate_limit 3
      (increments 2 (snd (check_rate_limit 0 Map.empty ''u'' ''chat'' 100)) ''u'' ''chat'')
      ''u'' ''chat'' 100)) = 2 \<and>
   rc_allowed (fst (check_rate_limit 3
      (increments 2 (snd (check_rate_limit 0 Map.empty ''u'' ''chat'' 100)) ''u'' ''chat'')
      ''u'' ''chat'' 100))"
proof -
  have r: "rc_reset_at (fst (check_rate_limit 0 Map.empty ''u'' ''chat'' 100)) = 86400000000"
    and c: "rc_current_count (fst (check_rate_limit 0 Map.empty ''u'' ''chat'' 100)) = 0"
    by (simp_all add: check_rate_limit_def entry_of_def needs_reset_def next_midnight_def
        day_us_def count_of_def Let_def)
  have h1: "check_rate_limit 0 Map.empty ''u'' ''chat'' 100
      = (fst (check_rate_limit 0 Map.empty ''u'' ''chat'' 100),
         snd (check_rate_limit 0 Map.empty ''u'' ''chat'' 100))" by simp
  have h2: "\<forall>t\<in>set [1, 2]. t < rc_reset_at (fst (check_rate_limit 0 Map.empty ''u'' ''chat'' 100))"
    unfolding r by simp
  have h3: "3 < rc_reset_at (fst (check_rate_limit 0 Map.empty ''u'' ''chat'' 100))"
    unfolding r by simp
  show ?thesis
    using rate_limit_counts_within_window[OF h1 h2 h3, of 100 2] c by simp
qed

text \<open>
  C3 as stated fails for a pair that was never checked: the increment returns 1, and the
  check that follows finds no \<open>reset_at\<close>, zeroes the count and reports 0.
\<close>

theorem increment_before_first_check_is_lost:
  "rc_current_count (fst (check_rate_limit 0
      (snd (increment_count Map.empty ''u'' ''chat'')) ''u'' ''chat'' 2)) = 0
   \<and> fst (increment_count Map.empty ''u'' ''chat'') = 1"
  by (simp add: check_rate_limit_def increment_count_def entry_of_def needs_reset_def
      count_of_def Let_def)

text \<open>
  C4 (as amended). \<open>check_rate_limit\<close> itself resets the window: when the pair has no
  record, or its record has no \<open>reset_at\<close>, or the clock has reached \<open>reset_at\<close>, the
  count becomes 0 and \<open>reset_at\<close> the start of the next calendar day of the UTC clock
  the limiter reads (a multiple of one day, after now and at most one day away: the next
  midnight of the zone at offset 0); otherwise the state is left as it is.
  \<open>increment_count\<close> reads no clock: it adds one to the count and keeps \<open>reset_at\<close>,
  also when the window has expired.
\<close>

theorem check_resets_window_increment_does_not:
  "((st (u, a) = None \<or> usage_reset_at (entry_of st u a) = None \<or>
     (\<exists>r. usage_reset_at (entry_of st u a) = Some r \<and> r \<le> now)) \<longrightarrow>
      entry_of (snd (check_rate_limit now st u a L)) u a
        = \<lparr> usage_count = Some 0, usage_reset_at = Some (next_midnight now) \<rparr> \<and>
      rc_current_count (fst (check_rate_limit now st u a L)) = 0 \<and>
      rc_reset_at (fst (check_rate_limit now st u a L)) = next_midnight now) \<and>
   ((\<exists>r. usage_reset_at (entry_of st u a) = Some r \<and> now < r) \<longrightarrow>
      snd (check_rate_limit now st u a L) = st) \<and>
   next_midnight now mod day_us = 0 \<and> now < next_midnight now \<and>
   next_midnight now \<le> now + day_us \<and>
   next_midnight now = local_next_midnight 0 now \<and>
   fst (increment_count st u a) = count_of (entry_of st u a) + 1 \<and>
   entry_of (snd (increment_count st u a)) u a
     = (entry_of st u a)\<lparr> usage_count := Some (count_of (entry_of st u a) + 1) \<rparr>"
proof -
  have "needs_reset now (entry_of st u a)"
    if "st (u, a) = None \<or> usage_reset_at (entry_of st u a) = None \<or>
        (\<exists>r. usage_reset_at (entry_of st u a) = Some r \<and> r \<le> now)"
    using that by (auto simp: needs_reset_def entry_of_def)
  then have reset: "(st (u, a) = None \<or> usage_reset_at (entry_of st u a) = None \<or>
     (\<exists>r. usage_reset_at (entry_of st u a) = Some r \<and> r \<le> now)) \<longrightarrow>
      entry_of (snd (check_rate_limit now st u a L)) u a
        = \<lparr> usage_count = Some 0, usage_reset_at = Some (next_midnight now) \<rparr> \<and>
      rc_current_count (fst (check_rate_limit now st u a L)) = 0 \<and>
      rc_reset_at (fst (check_rate_limit now st u a L)) = next_midnight now"
    by (simp add: check_resets entry_of_upd_same)
  have keep: "(\<exists>r. usage_reset_at (entry_of st u a) = Some r \<and> now < r) \<longrightarrow>
      snd (check_rate_limit now st u a L) = st"
    by (auto simp: check_in_window)
  have inc: "fst (increment_count st u a) = count_of (entry_of st u a) + 1"
    by (simp add: increment_count_def Let_def)
  have "(now + day_us) div day_us = now div day_us + 1"
    by (simp add: day_us_def)
  then have utc: "next_midnight now = local_next_midnight 0 now"
    by (simp only: next_midnight_def local_next_midnight_def) simp
  show ?thesis
    using reset keep next_midnight_bounds[of now] utc inc increment_entry[of st u a] by simp
qed

theorem check_resets_window_increment_does_not_witness:
  "entry_of (snd (check_rate_limit 5 Map.empty ''u'' ''chat'' 100)) ''u'' ''chat''
     = \<lparr> usage_count = Some 0, usage_reset_at = Some 86400000000 \<rparr> \<and>
   entry_of (snd (increment_count
       (Map.empty((''u'', ''chat'') \<mapsto> \<lparr> usage_count = Some 7, usage_reset_at = Some 86400000000 \<rparr>))
       ''u'' ''chat'')) ''u'' ''chat''
     = \<lparr> usage_count = Some 8, usage_reset_at = Some 86400000000 \<rparr>"
  using check_resets_window_increment_does_not [of Map.empty "''u''" "''chat''" 5 100]
    check_resets_window_increment_does_not
      [of "Map.empty((''u'', ''chat'') \<mapsto> \<lparr> usage_count = Some 7, usage_reset_at = Some 86400000000 \<rparr>)"
          "''u''" "''chat''" 172800000000 100]
  by (simp add: next_midnight_def day_us_def entry_of_def count_of_def)

text \<open>
  C4 as stated fails on "local midnight" away from UTC: at 20:00 UTC of day 0 a first check
  sets \<open>reset_at\<close> to 24:00 UTC, four hours later, while the next local midnight of a zone
  six hours east of UTC is 18:00 UTC of day 1, twenty-two hours later.
\<close>

theorem reset_at_is_not_local_midnight:
  "rc_reset_at (fst (check_rate_limit 72000000000 Map.empty ''u'' ''chat'' 100)) = 86400000000 \<and>
   local_next_midnight 21600000000 72000000000 = 151200000000 \<and>
   rc_reset_at (fst (check_rate_limit 72000000000 Map.empty ''u'' ''chat'' 100))
     \<noteq> local_next_midnight 21600000000 72000000000"
  by (simp add: check_rate_limit_def entry_of_def needs_reset_def next_midnight_def
      local_next_midnight_def day_us_def count_of_def Let_def)

section \<open>Properties of the structured endpoints\<close>














text \<open>
  C10. \<open>get_control_recommendation\<close> fails open: when the service is not initialized,
  or has no model, or the provider call raises or returns nothing, or the cleaned output
  does not parse, the recommendation returned has \<open>approved\<close> true.
\<close>

theorem control_recommendation_fails_open:
  "(\<not> gs_initialized svc \<or> \<not> gs_has_model svc \<or> gemini_reply = ProviderError \<or>
    gemini_reply = ProviderText [] \<or>
    (\<exists>t. gemini_reply = ProviderText t \<and> parse_reply loads t = None)) \<longrightarrow>
   approved_of (get_control_recommendation svc gemini_reply loads) = Some (JBool True)"
  by (cases gemini_reply)
     (auto simp: get_control_recommendation_def call_gemini_def approved_of_def)

theorem control_recommendation_fails_open_witness:
  "approved_of (get_control_recommendation
      \<lparr> gs_initialized = False, gs_has_model = False, gs_cerebras_api_key = None \<rparr>
      (ProviderText (''{'' @ dq @ ''approved'' @ dq @ '': '' @ dq @ ''no'' @ dq @ ''}'')) loads_one_pair)
     = Some (JBool True) \<and>
   approved_of (get_control_recommendation
      \<lparr> gs_initialized = True, gs_has_model = True, gs_cerebras_api_key = None \<rparr>
      ProviderError loads_one_pair)
     = Some (JBool True) \<and>
   approved_of (get_control_recommendation
      \<lparr> gs_initialized = True, gs_has_model = True, gs_cerebras_api_key = None \<rparr>
      (ProviderText ''Sure! I would allow it.'') loads_one_pair)
     = Some (JBool True) \<and>
   approved_of (get_control_recommendation
      \<lparr> gs_initialized = True, gs_has_model = True, gs_cerebras_api_key = None \<rparr>
      (ProviderText (''{'' @ dq @ ''approved'' @ dq @ '': '' @ dq @ ''no'' @ dq @ ''}'')) loads_one_pair)
     = Some (JStr ''no'')"
proof -
  let ?on = "\<lparr> gs_initialized = True, gs_has_model = True, gs_cerebras_api_key = None \<rparr>"
  let ?off = "\<lparr> gs_initialized = False, gs_has_model = False, gs_cerebras_api_key = None \<rparr>"
  let ?deny = "''{'' @ dq @ ''approved'' @ dq @ '': '' @ dq @ ''no'' @ dq @ ''}''"
  have bad: "parse_reply loads_one_pair ''Sure! I would allow it.'' = None"
    by (simp add: parse_reply_def clean_json_text_def str_strip_def is_space_char_def
        str_startswith_def loads_one_pair_def json_ws_def Let_def)
  have good: "parse_reply loads_one_pair ?deny = Some (JObj [(''approved'', JStr ''no'')])"
    by (simp add: parse_reply_def clean_json_text_def str_strip_def is_space_char_def
        str_startswith_def dq_def loads_one_pair_def json_ws_def Let_def)
  have denied: "approved_of (get_control_recommendation ?on (ProviderText ?deny) loads_one_pair)
                  = Some (JStr ''no'')"
    using good by (simp add: get_control_recommendation_def call_gemini_def approved_of_def dq_def)
  show ?thesis
    using control_recommendation_fails_open[of ?off "ProviderText ?deny" loads_one_pair]
      control_recommendation_fails_open[of ?on ProviderError loads_one_pair]
      control_recommendation_fails_open[of ?on "ProviderText ''Sure! I would allow it.''" loads_one_pair]
      bad denied
    by simp
qed

section \<open>Properties of the chat fallback\<close>

lemma fallback_nonempty: "generate_fallback_response msg c \<noteq> []"
  by (simp add: generate_fallback_response_def Let_def)

lemma enhance_extends: "prefix response (enhance_response response intent c)"
  by (simp add: enhance_response_def)

lemma enhance_nonempty: "response \<noteq> [] \<Longrightarrow> enhance_response response intent c \<noteq> []"
  using enhance_extends[of response intent c] by (cases response) auto

lemma chat_uninitialized:
  "\<not> gs_initialized svc \<Longrightarrow>
   chat svc gemini_reply cerebras_reply msg c h = generate_fallback_response msg c"
  by (simp add: chat_def)

lemma chat_both_fail:
  "call_gemini svc gemini_reply = ProviderError \<or> call_gemini svc gemini_reply = ProviderText [] \<Longrightarrow>
   \<not> truthy (gs_cerebras_api_key svc) \<or> cerebras_reply = ProviderError \<Longrightarrow>
   chat svc gemini_reply cerebras_reply msg c h = generate_fallback_response msg c"
  by (auto simp: chat_def)

text \<open>
  C1. With both keys configured and both providers failing, the reply is the template
  built from the message and the context and is not empty, but the result says
  \<open>ai_enabled\<close>: the flag is the service's \<open>initialized\<close>, whatever produced the text.
\<close>

theorem both_providers_fail_ai_enabled_true:
  "gs_initialized (gemini_init (Some ''gemini-key'') (Some ''cerebras-key'') True) \<and>
   chat (gemini_init (Some ''gemini-key'') (Some ''cerebras-key'') True)
        ProviderError ProviderError ''hello'' \<lparr> ctx_loads = None, ctx_recentAlerts = None \<rparr> []
     = generate_fallback_response ''hello'' \<lparr> ctx_loads = None, ctx_recentAlerts = None \<rparr> \<and>
   qr_response (process_query (gemini_init (Some ''gemini-key'') (Some ''cerebras-key'') True)
        ProviderError ProviderError ''hello'' \<lparr> ctx_loads = None, ctx_recentAlerts = None \<rparr> []) \<noteq> [] \<and>
   qr_ai_enabled (process_query (gemini_init (Some ''gemini-key'') (Some ''cerebras-key'') True)
        ProviderError ProviderError ''hello'' \<lparr> ctx_loads = None, ctx_recentAlerts = None \<rparr> []) = True"
proof -
  let ?svc = "gemini_init (Some ''gemini-key'') (Some ''cerebras-key'') True"
  let ?c = "\<lparr> ctx_loads = None, ctx_recentAlerts = None \<rparr>"
  have i: "gs_initialized ?svc" by (simp add: gemini_init_def truthy_def)
  have ch: "chat ?svc ProviderError ProviderError ''hello'' ?c [] = generate_fallback_response ''hello'' ?c"
    by (rule chat_both_fail) (simp_all add: call_gemini_def)
  have r: "qr_response (process_query ?svc ProviderError ProviderError ''hello'' ?c []) \<noteq> []"
    unfolding process_query_def Let_def ch
    by (simp add: enhance_nonempty fallback_nonempty)
  have e: "qr_ai_enabled (process_query ?svc ProviderError ProviderError ''hello'' ?c [])"
    unfolding process_query_def Let_def using i by simp
  show ?thesis using i ch r e by simp
qed

section \<open>Properties of the intent classifier\<close>



















section \<open>Properties of the entity extraction\<close>

lemma advance_length: "j \<le> length (snd cur) \<Longrightarrow> length (snd (advance j cur)) = length (snd cur) - j"
  by (simp add: advance_def)

lemma rx_match_shorter:
  "y \<in> set (rx_match r x) \<Longrightarrow> length (snd (fst y)) \<le> length (snd (fst x))"
proof (induction r arbitrary: x y)
  case (Lit w)
  then have "y = (advance (length w) (fst x), snd x)" by (simp split: if_splits)
  then show ?case by (simp add: advance_def)
next
  case (Many cl n)
  then obtain j where "y = (advance j (fst x), snd x)" by auto
  then show ?case by (simp add: advance_def)
next
  case WordB
  then have "y = x" by (simp split: if_splits)
  then show ?case by simp
next
  case (Seq a b)
  then obtain z where "z \<in> set (rx_match a x)" "y \<in> set (rx_match b z)" by auto
  with Seq.IH(1)[of z x] Seq.IH(2)[of y z] show ?case by simp
next
  case (Alt a b)
  from Alt.prems have "y \<in> set (rx_match a x) \<or> y \<in> set (rx_match b x)" by simp
  then show ?case using Alt.IH(1)[of y x] Alt.IH(2)[of y x] by blast
next
  case (Opt a)
  from Opt.prems have "y \<in> set (rx_match a x) \<or> y = x" by auto
  then show ?case using Opt.IH[of y x] by auto
next
  case (Grp i a)
  from Grp.prems obtain z where "z \<in> set (rx_match a x)" "fst y = fst z" by auto
  then show ?case using Grp.IH[of z x] by simp
qed

lemma takeWhile_le: "length (takeWhile P xs) \<le> length xs"
  by (induction xs) simp_all

lemma rx_match_consumes:
  "consumes r \<Longrightarrow> y \<in> set (rx_match r x) \<Longrightarrow> length (snd (fst y)) < length (snd (fst x))"
proof (induction r arbitrary: x y)
  case (Lit w)
  then have "prefix w (snd (fst x))" "w \<noteq> []" "y = (advance (length w) (fst x), snd x)"
    by (auto split: if_splits)
  moreover from this have "length w \<le> length (snd (fst x))" by (simp add: prefix_length_le)
  ultimately show ?case by (cases w) (auto simp: advance_def)
next
  case (Many cl n)
  then obtain j where j: "n \<le> j" "j \<le> length (takeWhile (in_cls cl) (snd (fst x)))"
      "y = (advance j (fst x), snd x)" by auto
  with takeWhile_le[of "in_cls cl" "snd (fst x)"] Many.prems(1) show ?case
    by (auto simp: advance_def)
next
  case WordB
  then show ?case by simp
next
  case (Seq a b)
  from Seq.prems(2) obtain z where z: "z \<in> set (rx_match a x)" "y \<in> set (rx_match b z)" by auto
  from Seq.prems(1) have "consumes a \<or> consumes b" by simp
  then show ?case
  proof
    assume "consumes a"
    with Seq.IH(1)[of z x] z rx_match_shorter[of y b z] show ?thesis by simp
  next
    assume "consumes b"
    with Seq.IH(2)[of y z] z rx_match_shorter[of z a x] show ?thesis by simp
  qed
next
  case (Alt a b)
  from Alt.prems(2) have "y \<in> set (rx_match a x) \<or> y \<in> set (rx_match b x)" by simp
  moreover from Alt.prems(1) have "consumes a" "consumes b" by simp_all
  ultimately show ?case using Alt.IH(1)[of y x] Alt.IH(2)[of y x] by blast
next
  case (Opt a)
  then show ?case by simp
next
  case (Grp i a)
  from Grp.prems(2) obtain z where "z \<in> set (rx_match a x)" "fst y = fst z" by auto
  moreover from Grp.prems(1) have "consumes a" by simp
  ultimately show ?case using Grp.IH[of z x] by simp
qed

lemma rx_match_keeps_group:
  "\<not> has_group i r \<Longrightarrow> y \<in> set (rx_match r x) \<Longrightarrow> map_of (snd y) i = map_of (snd x) i"
proof (induction r arbitrary: x y)
  case (Lit w)
  then have "y = (advance (length w) (fst x), snd x)" by (simp split: if_splits)
  then show ?case by simp
next
  case (Many cl n)
  then obtain j where "y = (advance j (fst x), snd x)" by auto
  then show ?case by simp
next
  case WordB
  then have "y = x" by (simp split: if_splits)
  then show ?case by simp
next
  case (Seq a b)
  from Seq.prems(2) obtain z where z: "z \<in> set (rx_match a x)" "y \<in> set (rx_match b z)" by auto
  with Seq.IH(1)[of z x] Seq.IH(2)[of y z] Seq.prems(1) show ?case by simp
next
  case (Alt a b)
  from Alt.prems(2) have "y \<in> set (rx_match a x) \<or> y \<in> set (rx_match b x)" by simp
  moreover from Alt.prems(1) have "\<not> has_group i a" "\<not> has_group i b" by simp_all
  ultimately show ?case using Alt.IH(1)[of y x] Alt.IH(2)[of y x] by blast
next
  case (Opt a)
  from Opt.prems(2) have "y \<in> set (rx_match a x) \<or> y = x" by auto
  moreover from Opt.prems(1) have "\<not> has_group i a" by simp
  ultimately show ?case using Opt.IH[of y x] by auto
next
  case (Grp j a)
  from Grp.prems(2) obtain z where z: "z \<in> set (rx_match a x)"
    and y: "snd y = (j, take (length (snd (fst x)) - length (snd (fst z))) (snd (fst x))) # snd z"
    by auto
  from Grp.prems(1) have "i \<noteq> j" "\<not> has_group i a" by simp_all
  with Grp.IH[of z x] z y show ?case by simp
qed

lemma rx_seqD:
  "y \<in> set (rx_match (Seq a b) x) \<Longrightarrow> \<exists>z. z \<in> set (rx_match a x) \<and> y \<in> set (rx_match b z)"
  by auto

lemma rx_wordbD: "z \<in> set (rx_match WordB x) \<Longrightarrow> z = x"
  by (cases "at_boundary (fst x)") simp_all

lemma rx_grpD:
  assumes "z \<in> set (rx_match (Grp i g) x)"
  shows "\<exists>z0. z0 \<in> set (rx_match g x) \<and>
        z = (fst z0, (i, take (length (snd (fst x)) - length (snd (fst z0))) (snd (fst x))) # snd z0)"
proof -
  from assms have "z \<in> (\<lambda>y. (fst y, (i, take (length (snd (fst x)) - length (snd (fst y))) (snd (fst x))) # snd y))
                      ` set (rx_match g x)"
    by (simp only: rx_match.simps set_map)
  then show ?thesis by blast
qed

lemma first_group_nonempty:
  assumes "consumes g" "\<not> has_group 1 t"
    and "y \<in> set (rx_match (Seq WordB (Seq (Grp 1 g) t)) x)"
  shows "group_text (snd y) 1 \<noteq> []"
proof -
  from rx_seqD[OF assms(3)] obtain z1 where "z1 \<in> set (rx_match WordB x)"
    and "y \<in> set (rx_match (Seq (Grp 1 g) t) z1)" by blast
  with rx_wordbD[of z1 x] have "y \<in> set (rx_match (Seq (Grp 1 g) t) x)" by blast
  from rx_seqD[OF this] obtain z where z: "z \<in> set (rx_match (Grp 1 g) x)"
    and y: "y \<in> set (rx_match t z)" by blast
  from rx_grpD[OF z] obtain z0 where z0: "z0 \<in> set (rx_match g x)"
    and zc: "z = (fst z0, (1, take (length (snd (fst x)) - length (snd (fst z0))) (snd (fst x))) # snd z0)"
    by blast
  from rx_match_consumes[OF assms(1) z0]
  have "take (length (snd (fst x)) - length (snd (fst z0))) (snd (fst x)) \<noteq> []" by auto
  moreover from rx_match_keeps_group[OF assms(2) y] zc
  have "map_of (snd y) 1 = Some (take (length (snd (fst x)) - length (snd (fst z0))) (snd (fst x)))"
    by simp
  ultimately show ?thesis by (simp add: group_text_def)
qed

lemma rx_findall_from_match:
  "cs \<in> set (rx_findall r p s) \<Longrightarrow> \<exists>x y. y \<in> set (rx_match r x) \<and> cs = snd y"
proof (induction r p s rule: rx_findall.induct)
  case (1 r p)
  show ?case
  proof (cases "rx_match r ((p, []), [])")
    case Nil
    with "1.prems" show ?thesis by simp
  next
    case (Cons y ys)
    with "1.prems" have "cs = snd y" by simp
    moreover have "y \<in> set (rx_match r ((p, []), []))" by (simp add: Cons)
    ultimately show ?thesis by blast
  qed
next
  case (2 r p c cs')
  show ?case
  proof (cases "rx_match r ((p, c # cs'), [])")
    case Nil
    with "2.prems" have "cs \<in> set (rx_findall r (Some c) cs')" by simp
    with "2.IH"(1)[OF Nil] show ?thesis .
  next
    case (Cons y ys)
    show ?thesis
    proof (cases "cs = snd y")
      case True
      moreover have "y \<in> set (rx_match r ((p, c # cs'), []))" by (simp add: Cons)
      ultimately show ?thesis by blast
    next
      case False
      show ?thesis
      proof (cases "length (snd (fst y)) < length (c # cs')")
        case True
        with "2.prems" Cons False have "cs \<in> set (rx_findall r (fst (fst y)) (snd (fst y)))"
          by simp
        with "2.IH"(2)[OF Cons True] show ?thesis .
      next
        case nl: False
        with "2.prems" Cons False have "cs \<in> set (rx_findall r (Some c) cs')" by simp
        with "2.IH"(3)[OF Cons nl] show ?thesis .
      qed
    qed
  qed
qed

lemma rx_alts_consumes: "w \<noteq> [] \<Longrightarrow> \<forall>v\<in>set ws. v \<noteq> [] \<Longrightarrow> consumes (rx_alts w ws)"
  by (induction ws arbitrary: w) simp_all

lemma load_name_first_group:
  assumes "y \<in> set (rx_match load_name_pattern x)"
  shows "group_text (snd y) 1 \<noteq> []"
  by (rule first_group_nonempty[OF _ _ assms[unfolded load_name_pattern_def]])
     (simp_all add: rx_alts_consumes)

lemma time_period_first_group:
  assumes "y \<in> set (rx_match time_period_pattern x)"
  shows "group_text (snd y) 1 \<noteq> []"
  by (rule first_group_nonempty[OF _ _ assms[unfolded time_period_pattern_def]])
     (simp_all add: rx_alts_consumes)

lemma number_first_group:
  assumes "y \<in> set (rx_match number_pattern x)"
  shows "group_text (snd y) 1 \<noteq> []"
  by (rule first_group_nonempty[OF _ _ assms[unfolded number_pattern_def]]) simp_all

lemma action_first_group:
  assumes "y \<in> set (rx_match action_pattern x)"
  shows "group_text (snd y) 1 \<noteq> []"
  by (rule first_group_nonempty[OF _ _ assms[unfolded action_pattern_def]])
     (simp_all add: rx_alts_consumes)

lemma entity_match_first_group:
  assumes "(ty, n, r) \<in> set entity_patterns" and "y \<in> set (rx_match r x)"
  shows "group_text (snd y) 1 \<noteq> []"
proof -
  from assms(1) consider "r = load_name_pattern" | "r = time_period_pattern"
    | "r = number_pattern" | "r = action_pattern"
    by (auto simp: entity_patterns_def)
  then show ?thesis
    using assms(2) load_name_first_group[of y x] time_period_first_group[of y x]
      number_first_group[of y x] action_first_group[of y x]
    by cases simp_all
qed

lemma entity_match_flatten:
  assumes "(ty, n, r) \<in> set entity_patterns" and "m \<in> set (re_findall n r s)"
  shows "flatten_match m \<noteq> [] \<and> [] \<notin> set (flatten_match m)"
proof -
  have g: "group_text cs 1 \<noteq> []" if "cs \<in> set (rx_findall r None s)" for cs
    using rx_findall_from_match[OF that] entity_match_first_group[OF assms(1)] by blast
  from assms(1) have "n = 1 \<or> n = 2" by (auto simp: entity_patterns_def)
  then show ?thesis
  proof
    assume n: "n = 1"
    have "re_findall 1 r s = map (\<lambda>cs. MStr (group_text cs 1)) (rx_findall r None s)"
      by (simp add: re_findall_def)
    with assms(2) n obtain cs where "cs \<in> set (rx_findall r None s)" "m = MStr (group_text cs 1)"
      by auto
    with g[of cs] show ?thesis by simp
  next
    assume n: "n = 2"
    have "[1 ..< Suc 2] = [1, 2]" by (simp add: upt_rec)
    then have "re_findall 2 r s
        = map (\<lambda>cs. MTuple [group_text cs 1, group_text cs 2]) (rx_findall r None s)"
      by (simp add: re_findall_def)
    with assms(2) n obtain cs where "cs \<in> set (rx_findall r None s)"
      "m = MTuple [group_text cs 1, group_text cs 2]"
      by auto
    with g[of cs] show ?thesis by auto
  qed
qed

lemma extract_entities_lookup:
  "map_of (extract_entities msg) ty =
     (case map_of entity_patterns ty of
        None \<Rightarrow> None
      | Some nr \<Rightarrow> entity_value nr (str_lower msg))"
  by (simp add: extract_entities_def entity_patterns_def entity_value_def Let_def)

lemmas rx_eval =
  re_findall_def group_text_def at_boundary_def word_opt_def advance_def
  is_word_char_def is_upper_char_def is_lower_char_def is_digit_char_def is_space_char_def
  load_name_pattern_def time_period_pattern_def number_pattern_def action_pattern_def
  entity_patterns_def

lemma upt_groups: "[Suc 0 ..< 3] = [Suc 0, 2]"
  by code_simp

lemma entities_fan:
  "extract_entities ''Is the fan consuming too much power?'' = [(''load_name'', [''fan''])]"
  by (simp add: extract_entities_def str_lower_def lower_char_def rx_eval upt_groups Let_def)

lemma entities_pump:
  "extract_entities ''Turn ON pump 2.5 kW 30'' =
     [(''load_name'', [''pump'']), (''number'', [''2.5'', ''kw'', ''30'']), (''action'', [''turn on''])]"
  by (simp add: extract_entities_def str_lower_def lower_char_def rx_eval upt_groups Let_def)

text \<open>
  C8. For every message, the value \<open>extract_entities\<close> holds for an entity type comes
  from that type's pattern alone, run on the lower-cased message: the type is absent
  when the pattern has no match, and otherwise maps to the captures of all matches in
  order, the captures of a tuple flattened and its empty ones dropped. A type that is
  present never maps to the empty list, and no string in its list is empty. Types other
  than the four are absent.
\<close>

theorem extract_entities_per_type:
  "map_of (extract_entities msg) ty =
     (if ty = ''load_name'' then entity_value (1, load_name_pattern) (str_lower msg)
      else if ty = ''time_period'' then entity_value (1, time_period_pattern) (str_lower msg)
      else if ty = ''number'' then entity_value (2, number_pattern) (str_lower msg)
      else if ty = ''action'' then entity_value (1, action_pattern) (str_lower msg)
      else None) \<and>
   map_of (extract_entities msg) ty \<noteq> Some [] \<and>
   (\<forall>vs. map_of (extract_entities msg) ty = Some vs \<longrightarrow> [] \<notin> set vs)"
proof -
  have look: "map_of (extract_entities msg) ty =
     (if ty = ''load_name'' then entity_value (1, load_name_pattern) (str_lower msg)
      else if ty = ''time_period'' then entity_value (1, time_period_pattern) (str_lower msg)
      else if ty = ''number'' then entity_value (2, number_pattern) (str_lower msg)
      else if ty = ''action'' then entity_value (1, action_pattern) (str_lower msg)
      else None)"
    by (simp add: extract_entities_lookup entity_patterns_def)
  have val: "vs \<noteq> [] \<and> [] \<notin> set vs"
    if "map_of (extract_entities msg) ty = Some vs" for vs
  proof -
    from that obtain n r where nr: "map_of entity_patterns ty = Some (n, r)"
      and ev: "entity_value (n, r) (str_lower msg) = Some vs"
      by (auto simp: extract_entities_lookup split: option.splits)
    from nr have mem: "(ty, n, r) \<in> set entity_patterns" by (rule map_of_SomeD)
    from ev have ne: "re_findall n r (str_lower msg) \<noteq> []"
      and vs: "vs = concat (map flatten_match (re_findall n r (str_lower msg)))"
      by (auto simp: entity_value_def split: if_splits)
    from ne obtain m ms where ms: "re_findall n r (str_lower msg) = m # ms"
      by (cases "re_findall n r (str_lower msg)") auto
    have all: "\<forall>m\<in>set (re_findall n r (str_lower msg)). flatten_match m \<noteq> [] \<and> [] \<notin> set (flatten_match m)"
      using entity_match_flatten[OF mem] by blast
    then have "flatten_match m \<noteq> []" using ms by simp
    then have "vs \<noteq> []" using vs ms by simp
    moreover have "[] \<notin> set vs" using vs all by auto
    ultimately show ?thesis by simp
  qed
  show ?thesis using look val by blast
qed

text \<open>
  C8 on the example of the specification (only \<open>load_name\<close> is present) and on a
  message with a number with a unit and a number without one.
\<close>

theorem extract_entities_per_type_witness:
  "map_of (extract_entities ''Is the fan consuming too much power?'') ''load_name'' = Some [''fan''] \<and>
   map_of (extract_entities ''Is the fan consuming too much power?'') ''number'' = None \<and>
   entity_value (2, number_pattern) (str_lower ''Is the fan consuming too much power?'') = None \<and>
   map_of (extract_entities ''Turn ON pump 2.5 kW 30'') ''number'' = Some [''2.5'', ''kw'', ''30''] \<and>
   map_of (extract_entities ''Turn ON pump 2.5 kW 30'') ''action'' = Some [''turn on''] \<and>
   map_of (extract_entities ''Turn ON pump 2.5 kW 30'') ''time_period'' = None"
  using extract_entities_per_type[of "''Is the fan consuming too much power?''" "''number''"]
    extract_entities_per_type[of "''Turn ON pump 2.5 kW 30''" "''number''"]
  by (simp add: entities_fan entities_pump)

end
